theory Spec2Isabelle
  imports Main "HOL-Library.Word"
begin

section \<open>The view controller of \<^verbatim>\<open>src/static/app.js\<close>\<close>

text \<open>
  The script registers one \<^verbatim>\<open>DOMContentLoaded\<close> handler that defines
  \<^verbatim>\<open>fetchActivities\<close>, attaches a submit handler to the registration form and one to
  the signup form, and calls \<^verbatim>\<open>fetchActivities\<close> once.

  The page is a record of the DOM parts the script touches. Every \<^verbatim>\<open>async\<close>
  function is cut at its \<^verbatim>\<open>await\<close>s: the part that runs when the function is called
  (it issues the request) and the part that runs when the awaited promises settle (it gets
  the outcome of \<^verbatim>\<open>fetch\<close> and of \<^verbatim>\<open>response.json()\<close> as an argument). Between the
  two parts other handlers may run, so the second part starts from any page.

  Strings are byte lists (the UTF-8 encoding of the JavaScript string). Numbers are whole
  numbers in the range where JavaScript's numbers are exact: a count or an identifier is
  a \<open>53 word\<close> (from \<open>0\<close> to \<open>2^53 - 1\<close>), a number of a JSON body a \<open>54 word\<close> read as
  signed (from \<open>-2^53\<close> to \<open>2^53 - 1\<close>). On these, subtraction is the subtraction of
  integers and the conversion to text is the decimal numeral. The identifiers
  \<^verbatim>\<open>activitiesList\<close>, \<^verbatim>\<open>activitySelect\<close>, \<^verbatim>\<open>signupForm\<close> and \<^verbatim>\<open>messageDiv\<close> are not
  declared in the script; they are taken to be the elements the host document provides
  under these names.
\<close>

subsection \<open>Values the script handles\<close>

datatype js_error = TypeError | NetworkError | SyntaxError

text \<open>
  An element of the array \<^verbatim>\<open>GET /activities\<close> answers with. The identifier and the two
  counts are whole numbers from \<open>0\<close> to \<open>2^53 - 1\<close>, which JavaScript holds exactly.
\<close>

record activity =
  activity_id :: "53 word"
  name :: string
  description :: string
  schedule :: string
  max_participants :: "53 word"
  current_participants :: "53 word"

text \<open>What \<^verbatim>\<open>response.json()\<close> of \<^verbatim>\<open>GET /activities\<close> resolves to: an array of
  activities, or a JSON value that is not an array (it has no \<^verbatim>\<open>forEach\<close>).\<close>

datatype activities_payload = ActivityArray "activity list" | NotAnArray

text \<open>
  The outcome of \<^verbatim>\<open>await fetch(...)\<close> followed by \<^verbatim>\<open>await response.json()\<close>:
  \<open>Rejected\<close> when \<^verbatim>\<open>fetch\<close> rejects, otherwise \<open>Response ok body\<close> with the
  \<^verbatim>\<open>response.ok\<close> flag and \<open>body = None\<close> when \<^verbatim>\<open>response.json()\<close> rejects (the body
  is not JSON), \<open>Some v\<close> when it resolves to \<open>v\<close>.
\<close>

datatype 'b fetch_outcome = Rejected | Response bool "'b option"

subsection \<open>The page\<close>

text \<open>
  An element the script creates: the class name it is given and the markup the script
  assigns to its \<^verbatim>\<open>innerHTML\<close>. The script never reads \<^verbatim>\<open>innerHTML\<close> back; what the
  browser makes of the assigned markup is the subject of \<open>live_markup\<close> below.
\<close>

record html_element =
  className :: string
  innerHTML_assigned :: string

text \<open>A child of the list container: the nodes made from the markup assigned to the
  container's \<^verbatim>\<open>innerHTML\<close>, or a \<^verbatim>\<open>div\<close> added with \<^verbatim>\<open>appendChild\<close>.\<close>

datatype child = Markup string | Div html_element

record select_option =
  option_value :: string
  option_textContent :: string

record message_element =
  textContent :: string
  classList :: "string list"

record register_fields =
  reg_email :: string
  first_name :: string
  last_name :: string
  password :: string

record signup_fields =
  email :: string
  activity_field :: string

record request =
  req_method :: string
  req_url :: string
  req_headers :: "(string \<times> string) list"
  req_body :: "(string \<times> string) list option"

datatype timer_callback = HideRegMessage | HideMessage

text \<open>
  \<open>registerForm_defaults\<close> and \<open>signupForm_defaults\<close> are the values the document
  declares for the fields (what \<^verbatim>\<open>form.reset()\<close> restores; empty in a document that
  declares none). \<open>requests\<close> is the log of the \<^verbatim>\<open>fetch\<close> calls made, \<open>timers\<close> the
  pending \<^verbatim>\<open>setTimeout\<close> callbacks with the time they are due, \<open>console\<close> the
  \<^verbatim>\<open>console.error\<close> records.
\<close>

record page =
  activitiesList :: "child list"
  activitySelect :: "select_option list"
  registerForm :: register_fields
  registerForm_defaults :: register_fields
  regMessageDiv :: message_element
  signupForm :: signup_fields
  signupForm_defaults :: signup_fields
  messageDiv :: message_element
  requests :: "request list"
  timers :: "(nat \<times> timer_callback) list"
  clock :: nat
  console :: "(string \<times> js_error) list"

text \<open>How a block of statements ends: normally, or by a throw, with the page as it is then.\<close>

datatype completion = Normal page | Throw js_error page

fun page_of :: "completion \<Rightarrow> page" where
  "page_of (Normal s) = s"
| "page_of (Throw e s) = s"

fun try_catch :: "completion \<Rightarrow> (js_error \<Rightarrow> page \<Rightarrow> completion) \<Rightarrow> completion" where
  "try_catch (Normal s) h = Normal s"
| "try_catch (Throw e s) h = h e s"

subsection \<open>Numbers as text\<close>

text \<open>The decimal numeral of an integer. The conversion of a JavaScript number to text
  is this numeral for the whole numbers of magnitude up to \<open>2^53\<close>, the only numbers of
  the model.\<close>

fun digits :: "nat \<Rightarrow> string" where
  "digits n = (if n < 10 then [char_of (48 + n)]
               else digits (n div 10) @ [char_of (48 + n mod 10)])"

declare digits.simps [simp del]

definition decimal :: "int \<Rightarrow> string" where
  "decimal i = (if i < 0 then CHR ''-'' # digits (nat (- i)) else digits (nat i))"

subsection \<open>\<^verbatim>\<open>fetchActivities\<close>\<close>

definition GET_activities :: request where
  "GET_activities = \<lparr>req_method = ''GET'', req_url = ''/activities'', req_headers = [], req_body = None\<rparr>"

text \<open>The call: \<^verbatim>\<open>fetch("/activities")\<close> is issued, then the function waits.\<close>

definition fetchActivities_call :: "page \<Rightarrow> page" where
  "fetchActivities_call s = s\<lparr>requests := requests s @ [GET_activities]\<rparr>"

text \<open>
  The continuation. Assigning the empty markup to \<^verbatim>\<open>activitiesList.innerHTML\<close> removes
  the children of the list. The template literal of the card is copied with its line
  breaks and indentation; both counts are below \<open>2^53\<close>, so their difference is exact.
\<close>

definition set_innerHTML :: "string \<Rightarrow> page \<Rightarrow> page" where
  "set_innerHTML m s = s\<lparr>activitiesList := (if m = [] then [] else [Markup m])\<rparr>"

definition card_markup :: "activity \<Rightarrow> string" where
  "card_markup a =
    (let spotsLeft = uint (max_participants a) - uint (current_participants a) in
       [CHR 0x0A] @ ''          <h4>'' @ name a @ ''</h4>'' @
       [CHR 0x0A] @ ''          <p>'' @ description a @ ''</p>'' @
       [CHR 0x0A] @ ''          <p><strong>Schedule:</strong> '' @ schedule a @ ''</p>'' @
       [CHR 0x0A] @ ''          <p><strong>Availability:</strong> '' @ decimal spotsLeft
         @ '' spots left</p>'' @
       [CHR 0x0A] @ ''        '')"

definition activityCard :: "activity \<Rightarrow> html_element" where
  "activityCard a = \<lparr>className = ''activity-card'', innerHTML_assigned = card_markup a\<rparr>"

definition option_for :: "activity \<Rightarrow> select_option" where
  "option_for a = \<lparr>option_value = decimal (uint (activity_id a)), option_textContent = name a\<rparr>"

text \<open>The body of the \<^verbatim>\<open>forEach\<close> callback, and the loop.\<close>

definition render_activity :: "activity \<Rightarrow> page \<Rightarrow> page" where
  "render_activity a s =
     s\<lparr>activitiesList := activitiesList s @ [Div (activityCard a)],
       activitySelect := activitySelect s @ [option_for a]\<rparr>"

fun forEach :: "activity list \<Rightarrow> page \<Rightarrow> page" where
  "forEach [] s = s"
| "forEach (a # as) s = forEach as (render_activity a s)"

definition fetchActivities_try :: "activities_payload fetch_outcome \<Rightarrow> page \<Rightarrow> completion" where
  "fetchActivities_try r s =
     (case r of
        Rejected \<Rightarrow> Throw NetworkError s
      | Response ok None \<Rightarrow> Throw SyntaxError s
      | Response ok (Some activities) \<Rightarrow>
          (let s1 = set_innerHTML [] s in
           case activities of
             NotAnArray \<Rightarrow> Throw TypeError s1
           | ActivityArray as \<Rightarrow> Normal (forEach as s1)))"

definition fetchActivities_catch :: "js_error \<Rightarrow> page \<Rightarrow> completion" where
  "fetchActivities_catch error s =
     Normal ((set_innerHTML ''<p>Failed to load activities. Please try again later.</p>'' s)
              \<lparr>console := console s @ [(''Error fetching activities:'', error)]\<rparr>)"

definition fetchActivities_resume :: "activities_payload fetch_outcome \<Rightarrow> page \<Rightarrow> completion" where
  "fetchActivities_resume r s = try_catch (fetchActivities_try r s) fetchActivities_catch"

subsection \<open>JSON values and the conversions the handlers apply to them\<close>

text \<open>
  What \<^verbatim>\<open>response.json()\<close> of the two \<^verbatim>\<open>POST\<close> endpoints resolves to. Numbers are
  the whole numbers from \<open>-2^53\<close> to \<open>2^53 - 1\<close>, which JavaScript holds exactly and
  prints as their decimal numeral; an object is the list of its own properties, each key
  once.
\<close>

datatype json = JNull | JBool bool | JNumber "54 word" | JString string
  | JArray "json list" | JObject "(string \<times> json) list"

text \<open>
  \<^verbatim>\<open>result.detail\<close> and \<^verbatim>\<open>result.message\<close>: reading a property of \<^verbatim>\<open>null\<close> throws, an
  object gives its own property or \<^verbatim>\<open>undefined\<close> (\<open>None\<close>), every other value gives
  \<^verbatim>\<open>undefined\<close> (no prototype defines \<^verbatim>\<open>detail\<close> or \<^verbatim>\<open>message\<close>).
\<close>

fun Get :: "json \<Rightarrow> string \<Rightarrow> js_error + json option" where
  "Get JNull k = Inl TypeError"
| "Get (JObject kvs) k = Inr (map_of kvs k)"
| "Get v k = Inr None"

fun truthy :: "json option \<Rightarrow> bool" where
  "truthy None = False"
| "truthy (Some JNull) = False"
| "truthy (Some (JBool b)) = b"
| "truthy (Some (JNumber n)) = (n \<noteq> 0)"
| "truthy (Some (JString s)) = (s \<noteq> [])"
| "truthy (Some (JArray xs)) = True"
| "truthy (Some (JObject kvs)) = True"

text \<open>\<^verbatim>\<open>v || "fallback"\<close>\<close>

definition or_else :: "json option \<Rightarrow> string \<Rightarrow> json option" where
  "or_else v fallback = (if truthy v then v else Some (JString fallback))"

text \<open>
  \<open>ToString\<close> of the language: an array joins its elements with commas (\<^verbatim>\<open>null\<close>
  elements as the empty string); an object prints as \<^verbatim>\<open>[object Object]\<close> unless it has
  an own property \<^verbatim>\<open>toString\<close>, which a JSON value can never make callable: then the
  conversion throws.
\<close>

fun ToString :: "json \<Rightarrow> js_error + string"
  and join :: "json list \<Rightarrow> js_error + string" where
  "ToString JNull = Inr ''null''"
| "ToString (JBool b) = Inr (if b then ''true'' else ''false'')"
| "ToString (JNumber n) = Inr (decimal (sint n))"
| "ToString (JString s) = Inr s"
| "ToString (JArray xs) = join xs"
| "ToString (JObject kvs) =
     (if ''toString'' \<in> fst ` set kvs then Inl TypeError else Inr ''[object Object]'')"
| "join [] = Inr []"
| "join (x # xs) =
     (case (if x = JNull then Inr [] else ToString x) of
        Inl e \<Rightarrow> Inl e
      | Inr t \<Rightarrow>
          (if xs = [] then Inr t
           else case join xs of Inl e \<Rightarrow> Inl e | Inr ts \<Rightarrow> Inr (t @ '','' @ ts)))"

text \<open>The setter of \<^verbatim>\<open>textContent\<close> takes \<^verbatim>\<open>null\<close> and \<^verbatim>\<open>undefined\<close> as the empty
  string and converts every other value with \<open>ToString\<close>.\<close>

fun text_of :: "json option \<Rightarrow> js_error + string" where
  "text_of None = Inr []"
| "text_of (Some JNull) = Inr []"
| "text_of (Some v) = ToString v"

subsection \<open>Status messages and timers\<close>

definition classList_remove :: "string \<Rightarrow> message_element \<Rightarrow> message_element" where
  "classList_remove t m = m\<lparr>classList := removeAll t (classList m)\<rparr>"

definition classList_add :: "string \<Rightarrow> message_element \<Rightarrow> message_element" where
  "classList_add t m = (if t \<in> set (classList m) then m else m\<lparr>classList := classList m @ [t]\<rparr>)"

definition hidden :: "message_element \<Rightarrow> bool" where
  "hidden m = (''hidden'' \<in> set (classList m))"

definition setTimeout :: "timer_callback \<Rightarrow> nat \<Rightarrow> page \<Rightarrow> page" where
  "setTimeout cb delay s = s\<lparr>timers := timers s @ [(clock s + delay, cb)]\<rparr>"

fun run_callback :: "timer_callback \<Rightarrow> page \<Rightarrow> page" where
  "run_callback HideRegMessage s = s\<lparr>regMessageDiv := classList_add ''hidden'' (regMessageDiv s)\<rparr>"
| "run_callback HideMessage s = s\<lparr>messageDiv := classList_add ''hidden'' (messageDiv s)\<rparr>"

fun run_callbacks :: "(nat \<times> timer_callback) list \<Rightarrow> page \<Rightarrow> page" where
  "run_callbacks [] s = s"
| "run_callbacks ((due, cb) # ts) s = run_callbacks ts (run_callback cb s)"

text \<open>\<open>d\<close> milliseconds pass with no other event: the timers that are due by then run,
  earliest first, and leave the queue.\<close>

definition advance :: "nat \<Rightarrow> page \<Rightarrow> page" where
  "advance d s =
     (let now = clock s + d;
          due = filter (\<lambda>t. fst t \<le> now) (timers s);
          later = filter (\<lambda>t. \<not> fst t \<le> now) (timers s)
      in run_callbacks (sort_key fst due) (s\<lparr>clock := now, timers := later\<rparr>))"

subsection \<open>The submit handler of the registration form\<close>

definition register_request :: "register_fields \<Rightarrow> request" where
  "register_request f =
     \<lparr>req_method = ''POST'', req_url = ''/register'',
      req_headers = [(''Content-Type'', ''application/json'')],
      req_body = Some [(''email'', reg_email f), (''first_name'', first_name f),
                       (''last_name'', last_name f), (''password'', password f)]\<rparr>"

text \<open>The submit event: the four fields are read and the request is issued.\<close>

definition register_submit :: "page \<Rightarrow> page" where
  "register_submit s = s\<lparr>requests := requests s @ [register_request (registerForm s)]\<rparr>"

text \<open>
  The rest of the handler, once the response and its JSON are there: assigning
  \<^verbatim>\<open>className\<close> replaces the whole class list, \<^verbatim>\<open>registerForm.reset()\<close> restores the
  declared values. Both branches of the \<^verbatim>\<open>if\<close> go on to remove \<^verbatim>\<open>hidden\<close> and to set
  the timer; the \<^verbatim>\<open>catch\<close> block does not.
\<close>

definition show_regMessage :: "string \<Rightarrow> string \<Rightarrow> page \<Rightarrow> page" where
  "show_regMessage t c s = s\<lparr>regMessageDiv := \<lparr>textContent = t, classList = [c]\<rparr>\<rparr>"

definition registerForm_reset :: "page \<Rightarrow> page" where
  "registerForm_reset s = s\<lparr>registerForm := registerForm_defaults s\<rparr>"

definition register_try :: "json fetch_outcome \<Rightarrow> page \<Rightarrow> completion" where
  "register_try r s =
     (case r of
        Rejected \<Rightarrow> Throw NetworkError s
      | Response ok None \<Rightarrow> Throw SyntaxError s
      | Response ok (Some result) \<Rightarrow>
          (case (if ok then
                   Normal (registerForm_reset (show_regMessage ''Registration successful!'' ''success'' s))
                 else
                   (case Get result ''detail'' of
                      Inl e \<Rightarrow> Throw e s
                    | Inr detail \<Rightarrow>
                        (case text_of (or_else detail ''Registration failed'') of
                           Inl e \<Rightarrow> Throw e s
                         | Inr t \<Rightarrow> Normal (show_regMessage t ''error'' s)))) of
             Throw e s1 \<Rightarrow> Throw e s1
           | Normal s1 \<Rightarrow>
               Normal (setTimeout HideRegMessage 5000
                         (s1\<lparr>regMessageDiv := classList_remove ''hidden'' (regMessageDiv s1)\<rparr>))))"

definition register_catch :: "js_error \<Rightarrow> page \<Rightarrow> completion" where
  "register_catch error s =
     (let s1 = show_regMessage ''Failed to register. Please try again.'' ''error'' s;
          s2 = s1\<lparr>regMessageDiv := classList_remove ''hidden'' (regMessageDiv s1)\<rparr>
      in Normal (s2\<lparr>console := console s2 @ [(''Error registering:'', error)]\<rparr>))"

definition register_resume :: "json fetch_outcome \<Rightarrow> page \<Rightarrow> completion" where
  "register_resume r s = try_catch (register_try r s) register_catch"

subsection \<open>The submit handler of the signup form\<close>

text \<open>
  \<^verbatim>\<open>encodeURIComponent\<close> of the language, on the UTF-8 bytes of its argument: the
  unescaped characters (letters, digits and \<^verbatim>\<open>- _ . ! ~ * ' ( )\<close>) stay, every other byte
  becomes \<^verbatim>\<open>%\<close> and two upper-case hexadecimal digits. A string with an unpaired
  surrogate, on which the built-in throws, has no UTF-8 encoding and is not a value of the
  model.
\<close>

definition uriUnescaped :: "char \<Rightarrow> bool" where
  "uriUnescaped c =
     (let n = (of_char c :: nat) in
        (65 \<le> n \<and> n \<le> 90) \<or> (97 \<le> n \<and> n \<le> 122) \<or> (48 \<le> n \<and> n \<le> 57)
        \<or> c \<in> set ''-_.!~*()'' \<or> n = 39)"

definition hex_digit :: "nat \<Rightarrow> char" where
  "hex_digit n = ''0123456789ABCDEF'' ! (n mod 16)"

definition percent :: "char \<Rightarrow> string" where
  "percent c = [CHR ''%'', hex_digit (of_char c div 16), hex_digit (of_char c mod 16)]"

fun encodeURIComponent :: "string \<Rightarrow> string" where
  "encodeURIComponent [] = []"
| "encodeURIComponent (c # cs) =
     (if uriUnescaped c then [c] else percent c) @ encodeURIComponent cs"

text \<open>The submit event: the email and the selected activity are read and the request is
  issued; nothing is sent in the body.\<close>

definition signup_request :: "signup_fields \<Rightarrow> request" where
  "signup_request f =
     \<lparr>req_method = ''POST'',
      req_url = ''/activities/'' @ encodeURIComponent (activity_field f)
                @ ''/signup?email='' @ encodeURIComponent (email f),
      req_headers = [], req_body = None\<rparr>"

definition signup_submit :: "page \<Rightarrow> page" where
  "signup_submit s = s\<lparr>requests := requests s @ [signup_request (signupForm s)]\<rparr>"

text \<open>
  The rest of the handler, once the response and its JSON are there. On
  \<^verbatim>\<open>response.ok\<close> it shows \<^verbatim>\<open>result.message\<close>, resets the form and calls
  \<^verbatim>\<open>fetchActivities\<close> without waiting for it; otherwise it shows \<^verbatim>\<open>result.detail\<close> or
  the fallback. Both branches then remove \<^verbatim>\<open>hidden\<close> and set the timer. Every throw of
  the \<^verbatim>\<open>try\<close> block happens before the page is changed.
\<close>

definition show_message :: "string \<Rightarrow> string \<Rightarrow> page \<Rightarrow> page" where
  "show_message t c s = s\<lparr>messageDiv := \<lparr>textContent = t, classList = [c]\<rparr>\<rparr>"

definition signupForm_reset :: "page \<Rightarrow> page" where
  "signupForm_reset s = s\<lparr>signupForm := signupForm_defaults s\<rparr>"

definition signup_try :: "json fetch_outcome \<Rightarrow> page \<Rightarrow> completion" where
  "signup_try r s =
     (case r of
        Rejected \<Rightarrow> Throw NetworkError s
      | Response ok None \<Rightarrow> Throw SyntaxError s
      | Response ok (Some result) \<Rightarrow>
          (case (if ok then
                   (case Get result ''message'' of
                      Inl e \<Rightarrow> Throw e s
                    | Inr message \<Rightarrow>
                        (case text_of message of
                           Inl e \<Rightarrow> Throw e s
                         | Inr t \<Rightarrow>
                             Normal (fetchActivities_call
                                       (signupForm_reset (show_message t ''success'' s)))))
                 else
                   (case Get result ''detail'' of
                      Inl e \<Rightarrow> Throw e s
                    | Inr detail \<Rightarrow>
                        (case text_of (or_else detail ''An error occurred'') of
                           Inl e \<Rightarrow> Throw e s
                         | Inr t \<Rightarrow> Normal (show_message t ''error'' s)))) of
             Throw e s1 \<Rightarrow> Throw e s1
           | Normal s1 \<Rightarrow>
               Normal (setTimeout HideMessage 5000
                         (s1\<lparr>messageDiv := classList_remove ''hidden'' (messageDiv s1)\<rparr>))))"

definition signup_catch :: "js_error \<Rightarrow> page \<Rightarrow> completion" where
  "signup_catch error s =
     (let s1 = show_message ''Failed to sign up. Please try again.'' ''error'' s;
          s2 = s1\<lparr>messageDiv := classList_remove ''hidden'' (messageDiv s1)\<rparr>
      in Normal (s2\<lparr>console := console s2 @ [(''Error signing up:'', error)]\<rparr>))"

definition signup_resume :: "json fetch_outcome \<Rightarrow> page \<Rightarrow> completion" where
  "signup_resume r s = try_catch (signup_try r s) signup_catch"

subsection \<open>The rest of the script\<close>

text \<open>\<^verbatim>\<open>handleUnregister\<close> has an empty body and is attached to nothing. Once the handlers
  are attached, the \<^verbatim>\<open>DOMContentLoaded\<close> handler calls \<^verbatim>\<open>fetchActivities\<close>.\<close>

definition handleUnregister :: "page \<Rightarrow> page" where
  "handleUnregister s = s"

definition DOMContentLoaded :: "page \<Rightarrow> page" where
  "DOMContentLoaded s = fetchActivities_call s"

subsection \<open>Reading back what the page shows and what the request carries\<close>

text \<open>
  These functions are not part of the script. They say what the properties below mean by
  the number of spots a card displays and by a percent-encoded component (what a server
  gets when it undoes the \<^verbatim>\<open>%XX\<close> escapes).

  The browser parses the markup assigned to \<^verbatim>\<open>innerHTML\<close>. \<open>live_markup\<close> follows the
  parser through the markup as far as the properties need: character data is kept as it
  is written; the six tags of the card's template (\<^verbatim>\<open><h4>\<close>, \<^verbatim>\<open><p>\<close>, \<^verbatim>\<open><strong>\<close> and
  their end tags) are kept; a comment that is opened by \<^verbatim>\<open><!--\<close> and never closed runs
  to the end of the markup, so nothing after its opening is displayed. A comment is
  closed by \<^verbatim>\<open>-->\<close> or \<^verbatim>\<open>--!>\<close>, or by \<^verbatim>\<open>>\<close> or \<^verbatim>\<open>->\<close> right at its start; one that
  does not start with \<^verbatim>\<open>>\<close> or \<^verbatim>\<open>->\<close> and has no two dashes in a row is never closed.
  For every other use of \<^verbatim>\<open><\<close> (other tags, attributes, comments that may close) the
  result is \<open>None\<close>: the model does not say what the browser displays.
\<close>

fun two_dashes :: "string \<Rightarrow> bool" where
  "two_dashes (c # d # cs) = ((c = CHR ''-'' \<and> d = CHR ''-'') \<or> two_dashes (d # cs))"
| "two_dashes cs = False"

definition never_closed :: "string \<Rightarrow> bool" where
  "never_closed r = (take 1 r \<noteq> ''>'' \<and> take 2 r \<noteq> ''->'' \<and> \<not> two_dashes r)"

fun live_markup :: "string \<Rightarrow> string option" where
  "live_markup [] = Some []"
| "live_markup (c # cs) =
     (if c \<noteq> CHR ''<'' then map_option ((#) c) (live_markup cs)
      else if take 3 cs = ''h4>'' then map_option ((@) ''<h4>'') (live_markup (drop 3 cs))
      else if take 4 cs = ''/h4>'' then map_option ((@) ''</h4>'') (live_markup (drop 4 cs))
      else if take 2 cs = ''p>'' then map_option ((@) ''<p>'') (live_markup (drop 2 cs))
      else if take 3 cs = ''/p>'' then map_option ((@) ''</p>'') (live_markup (drop 3 cs))
      else if take 7 cs = ''strong>'' then map_option ((@) ''<strong>'') (live_markup (drop 7 cs))
      else if take 8 cs = ''/strong>'' then map_option ((@) ''</strong>'') (live_markup (drop 8 cs))
      else if take 3 cs = ''!--'' then (if never_closed (drop 3 cs) then Some [] else None)
      else None)"

text \<open>
  The number of spots a card displays: the card's live markup ends with the availability
  paragraph of the template, and the number is the numeral in it.
\<close>

definition digit_value :: "char \<Rightarrow> nat option" where
  "digit_value c = (let n = (of_char c :: nat) in if 48 \<le> n \<and> n \<le> 57 then Some (n - 48) else None)"

fun read_digits :: "nat \<Rightarrow> string \<Rightarrow> nat option" where
  "read_digits acc [] = Some acc"
| "read_digits acc (c # cs) =
     (case digit_value c of None \<Rightarrow> None | Some d \<Rightarrow> read_digits (10 * acc + d) cs)"

definition read_number :: "string \<Rightarrow> int option" where
  "read_number t =
     (case t of
        [] \<Rightarrow> None
      | c # cs \<Rightarrow>
          if c = CHR ''-'' then (if cs = [] then None else map_option (\<lambda>n. - int n) (read_digits 0 cs))
          else map_option int (read_digits 0 t))"

definition availability_start :: string where
  "availability_start = ''<p><strong>Availability:</strong> ''"

definition availability_end :: string where
  "availability_end = '' spots left</p>'' @ [CHR 0x0A] @ ''        ''"

definition spots_shown :: "string \<Rightarrow> int option" where
  "spots_shown m =
     (let k = length m - length availability_end;
          body = take k m;
          numeral = rev (takeWhile (\<lambda>c. c \<noteq> CHR '' '') (rev body));
          lead = take (length body - length numeral) body
      in if drop k m = availability_end
            \<and> drop (length lead - length availability_start) lead = availability_start
         then read_number numeral
         else None)"

datatype availability = Spots int | No_spots | Not_modelled

fun card_spots :: "child \<Rightarrow> availability" where
  "card_spots (Div e) =
     (case live_markup (innerHTML_assigned e) of
        None \<Rightarrow> Not_modelled
      | Some m \<Rightarrow> (case spots_shown m of None \<Rightarrow> No_spots | Some n \<Rightarrow> Spots n))"
| "card_spots (Markup m) = No_spots"

definition hex_value :: "char \<Rightarrow> nat option" where
  "hex_value c =
     (let n = (of_char c :: nat) in
        if 48 \<le> n \<and> n \<le> 57 then Some (n - 48)
        else if 65 \<le> n \<and> n \<le> 70 then Some (n - 55)
        else if 97 \<le> n \<and> n \<le> 102 then Some (n - 87)
        else None)"

fun percent_decode :: "string \<Rightarrow> string option" where
  "percent_decode [] = Some []"
| "percent_decode (c # cs) =
     (if c = CHR ''%'' then
        (case cs of
           h # l # rest \<Rightarrow>
             (case (hex_value h, hex_value l) of
                (Some a, Some b) \<Rightarrow> map_option ((#) (char_of (16 * a + b))) (percent_decode rest)
              | _ \<Rightarrow> None)
         | _ \<Rightarrow> None)
      else map_option ((#) c) (percent_decode cs))"

subsection \<open>A concrete page and a concrete activity\<close>

text \<open>
  A run of the page. \<open>fresh_page\<close> is the page as a document presents it: a loading
  paragraph in the list, no options, empty forms, hidden messages. It loads and the server
  answers with the one activity \<open>chess\<close>; the user fills in both forms
  (\<open>filled_page\<close>); the user signs up and the server accepts; the refresh the handler has
  started is answered with the activity again, one participant more. \<open>robotics\<close> is
  an activity whose description opens a comment.
\<close>

definition chess :: activity where
  "chess = \<lparr>activity_id = 1, name = ''Chess Club'', description = ''Learn strategies'',
      schedule = ''Fridays'', max_participants = 12, current_participants = 5\<rparr>"


definition fresh_page :: page where
  "fresh_page =
     \<lparr>activitiesList = [Markup ''<p>Loading activities...</p>''], activitySelect = [],
      registerForm = \<lparr>reg_email = [], first_name = [], last_name = [], password = []\<rparr>,
      registerForm_defaults = \<lparr>reg_email = [], first_name = [], last_name = [], password = []\<rparr>,
      regMessageDiv = \<lparr>textContent = [], classList = [''hidden'']\<rparr>,
      signupForm = \<lparr>email = [], activity_field = []\<rparr>,
      signupForm_defaults = \<lparr>email = [], activity_field = []\<rparr>,
      messageDiv = \<lparr>textContent = [], classList = [''hidden'']\<rparr>,
      requests = [], timers = [], clock = 0, console = []\<rparr>"

definition page_after_load :: page where
  "page_after_load =
     page_of (fetchActivities_resume (Response True (Some (ActivityArray [chess])))
       (DOMContentLoaded fresh_page))"

definition filled_page :: page where
  "filled_page =
     page_after_load
       \<lparr>registerForm := \<lparr>reg_email = ''ann@example.org'', first_name = ''Ann'',
                          last_name = ''Lee'', password = ''secret''\<rparr>,
        signupForm := \<lparr>email = ''ann@example.org'', activity_field = ''1''\<rparr>\<rparr>"

definition page_after_signup :: page where
  "page_after_signup =
     page_of (signup_resume (Response True (Some (JObject [(''message'', JString ''Signed up'')])))
       (signup_submit filled_page))"

definition page_after_refresh :: page where
  "page_after_refresh =
     page_of (fetchActivities_resume
       (Response True (Some (ActivityArray [chess\<lparr>current_participants := 6\<rparr>])))
       page_after_signup)"

section \<open>Properties\<close>

subsection \<open>Rendering the activities\<close>


















text \<open>
  C8. When \<^verbatim>\<open>fetch\<close> of \<^verbatim>\<open>/activities\<close> rejects, or the body is not JSON, the function ends
  normally (the error is caught, nothing is thrown to the caller), the list container
  holds the one failure paragraph, and the dropdown is the one before the call.
\<close>

theorem fetchActivities_failure:
  "fetchActivities_resume Rejected s =
     Normal (s\<lparr>activitiesList := [Markup ''<p>Failed to load activities. Please try again later.</p>''],
              console := console s @ [(''Error fetching activities:'', NetworkError)]\<rparr>)
   \<and> fetchActivities_resume (Response ok None) s =
     Normal (s\<lparr>activitiesList := [Markup ''<p>Failed to load activities. Please try again later.</p>''],
              console := console s @ [(''Error fetching activities:'', SyntaxError)]\<rparr>)
   \<and> activitySelect (page_of (fetchActivities_resume Rejected s)) = activitySelect s
   \<and> activitySelect (page_of (fetchActivities_resume (Response ok None) s)) = activitySelect s"
  by (simp add: fetchActivities_resume_def fetchActivities_try_def fetchActivities_catch_def set_innerHTML_def)

text \<open>
  C1. The list container is emptied before the cards are added, the dropdown is not:
  the options of a response are appended to the options already there
  (\<open>fetchActivities_array\<close>). On a page whose dropdown starts empty, after the fetch at load
  time and the refresh that follows a signup, both answered with the one activity, the
  list holds one card and the dropdown two options for that activity.
\<close>

theorem refresh_duplicates_options:
  "activitySelect page_after_refresh
     = [\<lparr>option_value = ''1'', option_textContent = ''Chess Club''\<rparr>,
        \<lparr>option_value = ''1'', option_textContent = ''Chess Club''\<rparr>]
   \<and> map card_spots (activitiesList page_after_refresh) = [Spots 6]
   \<and> map req_url (requests page_after_refresh)
     = [''/activities'', ''/activities/1/signup?email=ann%40example.org'', ''/activities'']"
  by code_simp

subsection \<open>The registration form\<close>

lemma register_catch_page:
  "register_catch e s =
     Normal (s\<lparr>regMessageDiv := \<lparr>textContent = ''Failed to register. Please try again.'',
                                 classList = [''error'']\<rparr>,
              console := console s @ [(''Error registering:'', e)]\<rparr>)"
  by (simp add: register_catch_def show_regMessage_def classList_remove_def)


text \<open>
  C3, as the code has it. When \<^verbatim>\<open>response.ok\<close> is true and the body parses as JSON,
  whatever the parsed value is, the form is reset (its fields take the values the document
  declares, empty when it declares none) and the success message is shown, not hidden.
\<close>

theorem register_ok:
  "register_resume (Response True (Some j)) s =
     Normal (s\<lparr>regMessageDiv := \<lparr>textContent = ''Registration successful!'', classList = [''success'']\<rparr>,
              registerForm := registerForm_defaults s,
              timers := timers s @ [(clock s + 5000, HideRegMessage)]\<rparr>)
   \<and> registerForm (page_of (register_resume (Response True (Some j)) s)) = registerForm_defaults s
   \<and> regMessageDiv (page_of (register_resume (Response True (Some j)) s))
       = \<lparr>textContent = ''Registration successful!'', classList = [''success'']\<rparr>"
  by (simp add: register_resume_def register_try_def show_regMessage_def registerForm_reset_def
      setTimeout_def classList_remove_def)

text \<open>
  C3 as stated fails: with \<^verbatim>\<open>response.ok\<close> true and a body that is not JSON (an empty
  body, say), \<^verbatim>\<open>response.json()\<close> rejects before \<^verbatim>\<open>response.ok\<close> is looked at; the form
  keeps what the user typed and the failure message is shown.
\<close>

theorem register_ok_unparsed_body:
  "registerForm (page_of (register_resume (Response True None) filled_page))
     = \<lparr>reg_email = ''ann@example.org'', first_name = ''Ann'', last_name = ''Lee'', password = ''secret''\<rparr>
   \<and> registerForm (page_of (register_resume (Response True None) filled_page))
       \<noteq> registerForm_defaults filled_page
   \<and> regMessageDiv (page_of (register_resume (Response True None) filled_page))
     = \<lparr>textContent = ''Failed to register. Please try again.'', classList = [''error'']\<rparr>"
  by code_simp

text \<open>
  C4 as stated fails: the body \<^verbatim>\<open>{"detail": ""}\<close> has a \<^verbatim>\<open>detail\<close> field, and the
  fallback is shown, since \<^verbatim>\<open>||\<close> takes the fallback for every falsy value; and for the
  body \<^verbatim>\<open>null\<close>, which has no \<^verbatim>\<open>detail\<close>, reading \<^verbatim>\<open>result.detail\<close> throws and the message
  of the \<^verbatim>\<open>catch\<close> block is shown, not the fallback.
\<close>

theorem register_empty_detail:
  "Get (JObject [(''detail'', JString [])]) ''detail'' = Inr (Some (JString []))
   \<and> textContent (regMessageDiv (page_of
        (register_resume (Response False (Some (JObject [(''detail'', JString [])]))) filled_page)))
     = ''Registration failed''
   \<and> textContent (regMessageDiv (page_of
        (register_resume (Response False (Some JNull)) filled_page)))
     = ''Failed to register. Please try again.''"
  by (simp add: register_resume_def register_try_def or_else_def show_regMessage_def
      setTimeout_def classList_remove_def register_catch_page)

lemma register_not_ok_form:
  "registerForm (page_of (register_resume (Response False (Some j)) s)) = registerForm s"
  by (simp add: register_resume_def register_try_def register_catch_page show_regMessage_def
      setTimeout_def classList_remove_def split: sum.splits)

lemma register_not_ok_class:
  "classList (regMessageDiv (page_of (register_resume (Response False (Some j)) s))) = [''error'']"
  by (simp add: register_resume_def register_try_def register_catch_page show_regMessage_def
      setTimeout_def classList_remove_def split: sum.splits)

lemma register_not_ok_shown:
  assumes "Get j ''detail'' = Inr d" and "text_of (or_else d ''Registration failed'') = Inr t"
  shows "register_resume (Response False (Some j)) s =
           Normal (s\<lparr>regMessageDiv := \<lparr>textContent = t, classList = [''error'']\<rparr>,
                    timers := timers s @ [(clock s + 5000, HideRegMessage)]\<rparr>)"
  using assms
  by (simp add: register_resume_def register_try_def show_regMessage_def
      setTimeout_def classList_remove_def)

lemma register_not_ok_caught:
  assumes "Get j ''detail'' = Inl e
           \<or> (\<exists>d. Get j ''detail'' = Inr d \<and> text_of (or_else d ''Registration failed'') = Inl e)"
  shows "register_resume (Response False (Some j)) s =
           Normal (s\<lparr>regMessageDiv := \<lparr>textContent = ''Failed to register. Please try again.'',
                                       classList = [''error'']\<rparr>,
                    console := console s @ [(''Error registering:'', e)]\<rparr>)"
  using assms
  by (auto simp: register_resume_def register_try_def register_catch_page)

text \<open>
  C4, as the code has it. When \<^verbatim>\<open>response.ok\<close> is false and the body is JSON, the fields
  of the form are the ones before and a message of class \<^verbatim>\<open>error\<close> is shown. For a body
  other than \<^verbatim>\<open>null\<close>: a truthy \<^verbatim>\<open>detail\<close> is the message, converted to text (a non-empty
  string as it is), and the timer is set; when \<^verbatim>\<open>detail\<close> is absent or falsy (the empty
  string, \<^verbatim>\<open>0\<close>, \<^verbatim>\<open>false\<close>, \<^verbatim>\<open>null\<close>) the message is \<^verbatim>\<open>Registration failed\<close>, and the timer
  is set. For the body \<^verbatim>\<open>null\<close>, and for a truthy \<^verbatim>\<open>detail\<close> whose conversion to text
  throws, the \<^verbatim>\<open>catch\<close> block shows \<^verbatim>\<open>Failed to register. Please try again.\<close>
\<close>

theorem register_not_ok:
  "registerForm (page_of (register_resume (Response False (Some j)) s)) = registerForm s
   \<and> classList (regMessageDiv (page_of (register_resume (Response False (Some j)) s))) = [''error'']
   \<and> (\<forall>d t. Get j ''detail'' = Inr d \<and> truthy d \<and> text_of d = Inr t \<longrightarrow>
          register_resume (Response False (Some j)) s =
            Normal (s\<lparr>regMessageDiv := \<lparr>textContent = t, classList = [''error'']\<rparr>,
                     timers := timers s @ [(clock s + 5000, HideRegMessage)]\<rparr>))
   \<and> (\<forall>t. Get j ''detail'' = Inr (Some (JString t)) \<and> t \<noteq> [] \<longrightarrow>
          textContent (regMessageDiv (page_of (register_resume (Response False (Some j)) s))) = t)
   \<and> (\<forall>d. Get j ''detail'' = Inr d \<and> \<not> truthy d \<longrightarrow>
          register_resume (Response False (Some j)) s =
            Normal (s\<lparr>regMessageDiv := \<lparr>textContent = ''Registration failed'',
                                        classList = [''error'']\<rparr>,
                     timers := timers s @ [(clock s + 5000, HideRegMessage)]\<rparr>))
   \<and> (j = JNull \<longrightarrow>
          register_resume (Response False (Some j)) s =
            Normal (s\<lparr>regMessageDiv := \<lparr>textContent = ''Failed to register. Please try again.'',
                                        classList = [''error'']\<rparr>,
                     console := console s @ [(''Error registering:'', TypeError)]\<rparr>))
   \<and> (\<forall>d e. Get j ''detail'' = Inr d \<and> truthy d \<and> text_of d = Inl e \<longrightarrow>
          register_resume (Response False (Some j)) s =
            Normal (s\<lparr>regMessageDiv := \<lparr>textContent = ''Failed to register. Please try again.'',
                                        classList = [''error'']\<rparr>,
                     console := console s @ [(''Error registering:'', e)]\<rparr>))"
proof (intro conjI allI impI)
  show "registerForm (page_of (register_resume (Response False (Some j)) s)) = registerForm s"
    by (rule register_not_ok_form)
next
  show "classList (regMessageDiv (page_of (register_resume (Response False (Some j)) s)))
      = [''error'']"
    by (rule register_not_ok_class)
next
  fix d t
  assume "Get j ''detail'' = Inr d \<and> truthy d \<and> text_of d = Inr t"
  then show "register_resume (Response False (Some j)) s =
      Normal (s\<lparr>regMessageDiv := \<lparr>textContent = t, classList = [''error'']\<rparr>,
               timers := timers s @ [(clock s + 5000, HideRegMessage)]\<rparr>)"
    by (intro register_not_ok_shown [where d = d]) (simp_all add: or_else_def)
next
  fix t
  assume "Get j ''detail'' = Inr (Some (JString t)) \<and> t \<noteq> []"
  then have "register_resume (Response False (Some j)) s =
      Normal (s\<lparr>regMessageDiv := \<lparr>textContent = t, classList = [''error'']\<rparr>,
               timers := timers s @ [(clock s + 5000, HideRegMessage)]\<rparr>)"
    by (intro register_not_ok_shown [where d = "Some (JString t)"]) (simp_all add: or_else_def)
  then show "textContent (regMessageDiv (page_of (register_resume (Response False (Some j)) s))) = t"
    by simp
next
  fix d
  assume "Get j ''detail'' = Inr d \<and> \<not> truthy d"
  then show "register_resume (Response False (Some j)) s =
      Normal (s\<lparr>regMessageDiv := \<lparr>textContent = ''Registration failed'', classList = [''error'']\<rparr>,
               timers := timers s @ [(clock s + 5000, HideRegMessage)]\<rparr>)"
    by (intro register_not_ok_shown [where d = d]) (simp_all add: or_else_def)
next
  assume "j = JNull"
  then show "register_resume (Response False (Some j)) s =
      Normal (s\<lparr>regMessageDiv := \<lparr>textContent = ''Failed to register. Please try again.'',
                                  classList = [''error'']\<rparr>,
               console := console s @ [(''Error registering:'', TypeError)]\<rparr>)"
    by (intro register_not_ok_caught) simp
next
  fix d e
  assume "Get j ''detail'' = Inr d \<and> truthy d \<and> text_of d = Inl e"
  then show "register_resume (Response False (Some j)) s =
      Normal (s\<lparr>regMessageDiv := \<lparr>textContent = ''Failed to register. Please try again.'',
                                  classList = [''error'']\<rparr>,
               console := console s @ [(''Error registering:'', e)]\<rparr>)"
    by (intro register_not_ok_caught) (auto simp: or_else_def)
qed

theorem register_not_ok_witness:
  "textContent (regMessageDiv (page_of (register_resume
       (Response False (Some (JObject [(''detail'', JString ''Email already registered'')]))) filled_page)))
     = ''Email already registered''
   \<and> textContent (regMessageDiv (page_of (register_resume
       (Response False (Some (JObject [(''detail'', JNumber 404)]))) filled_page))) = ''404''
   \<and> textContent (regMessageDiv (page_of (register_resume
       (Response False (Some (JObject []))) filled_page))) = ''Registration failed''
   \<and> textContent (regMessageDiv (page_of (register_resume
       (Response False (Some JNull)) filled_page))) = ''Failed to register. Please try again.''
   \<and> textContent (regMessageDiv (page_of (register_resume
       (Response False (Some (JObject [(''detail'', JObject [(''toString'', JNull)])]))) filled_page)))
     = ''Failed to register. Please try again.''
   \<and> registerForm (page_of (register_resume
       (Response False (Some (JObject [(''detail'', JString ''Email already registered'')]))) filled_page))
     = registerForm filled_page"
proof -
  have n: "text_of (Some (JNumber 404)) = Inr ''404''"
    by code_simp
  show ?thesis
    using register_not_ok [of "JObject [(''detail'', JString ''Email already registered'')]" filled_page]
      register_not_ok [of "JObject [(''detail'', JNumber 404)]" filled_page] n
      register_not_ok [of "JObject []" filled_page]
      register_not_ok [of JNull filled_page]
      register_not_ok [of "JObject [(''detail'', JObject [(''toString'', JNull)])]" filled_page]
    by simp
qed

subsection \<open>The signup form\<close>

lemma hex_digit_cases:
  assumes "k < 16"
  shows "k \<in> {0, 1, 2, 3, 4, 5, 6, 7, 8, 9, 10, 11, 12, 13, 14, 15::nat}"
  using assms by simp arith

lemma hex_value_hex_digit: "k < 16 \<Longrightarrow> hex_value (hex_digit k) = Some k"
  using hex_digit_cases [of k] by (auto simp: hex_value_def hex_digit_def)

lemma uriUnescaped_hex_digit: "k < 16 \<Longrightarrow> uriUnescaped (hex_digit k)"
  using hex_digit_cases [of k] by (auto simp: uriUnescaped_def hex_digit_def)

lemma percent_not_unescaped: "\<not> uriUnescaped CHR ''%''"
  by (simp add: uriUnescaped_def)

lemma of_char_nibbles: "(of_char c :: nat) div 16 < 16"
proof -
  have "(of_char c :: nat) < 256" by simp
  then show ?thesis by arith
qed

lemma percent_decode_percent:
  "percent_decode (percent c @ rest) = map_option ((#) c) (percent_decode rest)"
proof -
  have "char_of (16 * ((of_char c :: nat) div 16) + of_char c mod 16) = c"
    by simp
  then show ?thesis
    by (simp add: percent_def hex_value_hex_digit of_char_nibbles)
qed

lemma percent_decode_encodeURIComponent: "percent_decode (encodeURIComponent x) = Some x"
proof (induction x)
  case Nil
  show ?case by simp
next
  case (Cons c cs)
  show ?case
  proof (cases "uriUnescaped c")
    case True
    then have "c \<noteq> CHR ''%''" using percent_not_unescaped by auto
    with True Cons show ?thesis by simp
  next
    case False
    with Cons show ?thesis by (simp add: percent_decode_percent del: percent_decode.simps)
  qed
qed

lemma encodeURIComponent_chars:
  "list_all (\<lambda>c. uriUnescaped c \<or> c = CHR ''%'') (encodeURIComponent x)"
  by (induction x) (simp_all add: percent_def uriUnescaped_hex_digit of_char_nibbles)

text \<open>
  C9. A submission of the signup form issues one request: \<^verbatim>\<open>POST\<close> to
  \<^verbatim>\<open>/activities/\<close>, the encoded activity, \<^verbatim>\<open>/signup?email=\<close>, the encoded email.
  Each encoded component consists of unescaped characters and \<^verbatim>\<open>%\<close> only (so no
  \<^verbatim>\<open>/\<close>, \<^verbatim>\<open>?\<close>, \<^verbatim>\<open>&\<close>, \<^verbatim>\<open>=\<close> or \<^verbatim>\<open>#\<close>), and undoing the escapes gives the field's
  value back.
\<close>

theorem signup_request_url:
  "requests (signup_submit s) =
     requests s @
       [\<lparr>req_method = ''POST'',
         req_url = ''/activities/'' @ encodeURIComponent (activity_field (signupForm s))
                   @ ''/signup?email='' @ encodeURIComponent (email (signupForm s)),
         req_headers = [], req_body = None\<rparr>]
   \<and> list_all (\<lambda>c. uriUnescaped c \<or> c = CHR ''%'')
        (encodeURIComponent (activity_field (signupForm s)) @ encodeURIComponent (email (signupForm s)))
   \<and> percent_decode (encodeURIComponent (activity_field (signupForm s)))
       = Some (activity_field (signupForm s))
   \<and> percent_decode (encodeURIComponent (email (signupForm s))) = Some (email (signupForm s))"
  by (simp add: signup_submit_def signup_request_def encodeURIComponent_chars
      percent_decode_encodeURIComponent)

lemma signup_catch_page:
  "signup_catch e s =
     Normal (s\<lparr>messageDiv := \<lparr>textContent = ''Failed to sign up. Please try again.'',
                              classList = [''error'']\<rparr>,
              console := console s @ [(''Error signing up:'', e)]\<rparr>)"
  by (simp add: signup_catch_def show_message_def classList_remove_def)

text \<open>
  C6. When \<^verbatim>\<open>response.ok\<close> is true and the body is an object whose \<^verbatim>\<open>message\<close> is a
  string, that string is the message shown, the signup form is reset, and exactly one
  request, \<^verbatim>\<open>GET /activities\<close>, is added to the requests made.
\<close>

theorem signup_ok:
  assumes "j = JObject kvs" and "map_of kvs ''message'' = Some (JString m)"
  shows "signup_resume (Response True (Some j)) s =
           Normal (s\<lparr>messageDiv := \<lparr>textContent = m, classList = [''success'']\<rparr>,
                    signupForm := signupForm_defaults s,
                    requests := requests s @ [GET_activities],
                    timers := timers s @ [(clock s + 5000, HideMessage)]\<rparr>)
         \<and> textContent (messageDiv (page_of (signup_resume (Response True (Some j)) s))) = m
         \<and> signupForm (page_of (signup_resume (Response True (Some j)) s)) = signupForm_defaults s
         \<and> requests (page_of (signup_resume (Response True (Some j)) s))
             = requests s @ [\<lparr>req_method = ''GET'', req_url = ''/activities'',
                               req_headers = [], req_body = None\<rparr>]"
  using assms
  by (simp add: signup_resume_def signup_try_def show_message_def signupForm_reset_def
      fetchActivities_call_def setTimeout_def classList_remove_def GET_activities_def)

theorem signup_ok_witness:
  "textContent (messageDiv (page_of (signup_resume
       (Response True (Some (JObject [(''message'', JString ''Signed up'')]))) filled_page)))
     = ''Signed up''
   \<and> signupForm (page_of (signup_resume
       (Response True (Some (JObject [(''message'', JString ''Signed up'')]))) filled_page))
     = \<lparr>email = [], activity_field = []\<rparr>
   \<and> requests (page_of (signup_resume
       (Response True (Some (JObject [(''message'', JString ''Signed up'')]))) filled_page))
     = requests filled_page @ [GET_activities]"
proof -
  have "signupForm_defaults filled_page = \<lparr>email = [], activity_field = []\<rparr>"
    by code_simp
  then show ?thesis
    using signup_ok [of "JObject [(''message'', JString ''Signed up'')]"
        "[(''message'', JString ''Signed up'')]" "''Signed up''" filled_page]
    by (simp add: GET_activities_def)
qed

text \<open>
  C10. When the signup fails (\<^verbatim>\<open>fetch\<close> rejects, the body is not JSON, or
  \<^verbatim>\<open>response.ok\<close> is false with any JSON body), the fields of the signup form are the
  ones before and no request is made: the activities are not fetched again.
\<close>

theorem signup_failure:
  "signupForm (page_of (signup_resume Rejected s)) = signupForm s
   \<and> requests (page_of (signup_resume Rejected s)) = requests s
   \<and> signupForm (page_of (signup_resume (Response ok None) s)) = signupForm s
   \<and> requests (page_of (signup_resume (Response ok None) s)) = requests s
   \<and> signupForm (page_of (signup_resume (Response False (Some j)) s)) = signupForm s
   \<and> requests (page_of (signup_resume (Response False (Some j)) s)) = requests s"
  by (simp add: signup_resume_def signup_try_def signup_catch_page show_message_def
      setTimeout_def classList_remove_def split: sum.splits)

subsection \<open>Hiding the status message\<close>

text \<open>A message that is hidden stays hidden when timers run, and a due timer for the
  registration message hides it.\<close>

lemma run_callback_keeps_hidden:
  "hidden (regMessageDiv s) \<Longrightarrow> hidden (regMessageDiv (run_callback cb s))"
  by (cases cb) (simp_all add: hidden_def classList_add_def)

lemma run_callbacks_keep_hidden:
  "hidden (regMessageDiv s) \<Longrightarrow> hidden (regMessageDiv (run_callbacks ts s))"
  by (induction ts s rule: run_callbacks.induct) (simp_all add: run_callback_keeps_hidden)

lemma run_callbacks_hide:
  "(t, HideRegMessage) \<in> set ts \<Longrightarrow> hidden (regMessageDiv (run_callbacks ts s))"
proof (induction ts s rule: run_callbacks.induct)
  case (1 s)
  then show ?case by simp
next
  case (2 due cb ts s)
  show ?case
  proof (cases "(t, HideRegMessage) = (due, cb)")
    case True
    then have "hidden (regMessageDiv (run_callback cb s))"
      by (auto simp: hidden_def classList_add_def)
    then show ?thesis by (simp add: run_callbacks_keep_hidden)
  next
    case False
    with 2 show ?thesis by auto
  qed
qed

lemma advance_hides:
  assumes "(t, HideRegMessage) \<in> set (timers s)" and "t \<le> clock s + d"
  shows "hidden (regMessageDiv (advance d s))"
proof -
  from assms have "(t, HideRegMessage) \<in> set (sort_key fst (filter (\<lambda>x. fst x \<le> clock s + d) (timers s)))"
    by simp
  then show ?thesis
    by (simp add: advance_def Let_def run_callbacks_hide)
qed

text \<open>The two paths of the registration handler: when the \<^verbatim>\<open>try\<close> block completes, the
  message is shown and is hidden 5000 ms later; when it throws, the message of the
  \<^verbatim>\<open>catch\<close> block is shown and the pending timers are the ones before.\<close>

lemma register_try_timer:
  assumes "register_try r s = Normal s1"
  shows "(clock s1 + 5000, HideRegMessage) \<in> set (timers s1)"
  using assms
  by (auto simp: register_try_def setTimeout_def show_regMessage_def registerForm_reset_def
      split: fetch_outcome.splits option.splits if_splits sum.splits)

lemma register_shown_then_hidden:
  assumes "register_try r s = Normal s1"
  shows "register_resume r s = Normal s1 \<and> \<not> hidden (regMessageDiv s1)
         \<and> hidden (regMessageDiv (advance 5000 s1))"
proof -
  have "\<not> hidden (regMessageDiv s1)"
    using assms
    by (auto simp: register_try_def setTimeout_def show_regMessage_def registerForm_reset_def
        classList_remove_def hidden_def
        split: fetch_outcome.splits option.splits if_splits sum.splits)
  moreover have "hidden (regMessageDiv (advance 5000 s1))"
    using register_try_timer [OF assms] by (rule advance_hides) simp
  ultimately show ?thesis using assms by (simp add: register_resume_def)
qed

lemma register_caught_no_timer:
  assumes "register_try r s = Throw e s1"
  shows "timers (page_of (register_resume r s)) = timers s
         \<and> \<not> hidden (regMessageDiv (page_of (register_resume r s)))"
  using assms
  by (auto simp: register_resume_def register_try_def register_catch_def show_regMessage_def
      classList_remove_def hidden_def
      split: fetch_outcome.splits option.splits if_splits sum.splits)

text \<open>The same for the message of the signup form.\<close>

lemma run_callback_keeps_message_hidden:
  "hidden (messageDiv s) \<Longrightarrow> hidden (messageDiv (run_callback cb s))"
  by (cases cb) (simp_all add: hidden_def classList_add_def)

lemma run_callbacks_keep_message_hidden:
  "hidden (messageDiv s) \<Longrightarrow> hidden (messageDiv (run_callbacks ts s))"
  by (induction ts s rule: run_callbacks.induct) (simp_all add: run_callback_keeps_message_hidden)

lemma run_callbacks_hide_message:
  "(t, HideMessage) \<in> set ts \<Longrightarrow> hidden (messageDiv (run_callbacks ts s))"
proof (induction ts s rule: run_callbacks.induct)
  case (1 s)
  then show ?case by simp
next
  case (2 due cb ts s)
  show ?case
  proof (cases "(t, HideMessage) = (due, cb)")
    case True
    then have "hidden (messageDiv (run_callback cb s))"
      by (auto simp: hidden_def classList_add_def)
    then show ?thesis by (simp add: run_callbacks_keep_message_hidden)
  next
    case False
    with 2 show ?thesis by auto
  qed
qed

lemma advance_hides_message:
  assumes "(t, HideMessage) \<in> set (timers s)" and "t \<le> clock s + d"
  shows "hidden (messageDiv (advance d s))"
proof -
  from assms have "(t, HideMessage) \<in> set (sort_key fst (filter (\<lambda>x. fst x \<le> clock s + d) (timers s)))"
    by simp
  then show ?thesis
    by (simp add: advance_def Let_def run_callbacks_hide_message)
qed

lemma signup_try_timer:
  assumes "signup_try r s = Normal s1"
  shows "(clock s1 + 5000, HideMessage) \<in> set (timers s1)"
  using assms
  by (auto simp: signup_try_def setTimeout_def show_message_def signupForm_reset_def
      fetchActivities_call_def
      split: fetch_outcome.splits option.splits if_splits sum.splits)

lemma signup_shown_then_hidden:
  assumes "signup_try r s = Normal s1"
  shows "signup_resume r s = Normal s1 \<and> \<not> hidden (messageDiv s1)
         \<and> hidden (messageDiv (advance 5000 s1))"
proof -
  have "\<not> hidden (messageDiv s1)"
    using assms
    by (auto simp: signup_try_def setTimeout_def show_message_def signupForm_reset_def
        fetchActivities_call_def classList_remove_def hidden_def
        split: fetch_outcome.splits option.splits if_splits sum.splits)
  moreover have "hidden (messageDiv (advance 5000 s1))"
    using signup_try_timer [OF assms] by (rule advance_hides_message) simp
  ultimately show ?thesis using assms by (simp add: signup_resume_def)
qed

lemma signup_caught_no_timer:
  assumes "signup_try r s = Throw e s1"
  shows "timers (page_of (signup_resume r s)) = timers s
         \<and> \<not> hidden (messageDiv (page_of (signup_resume r s)))"
  using assms
  by (auto simp: signup_resume_def signup_try_def signup_catch_def show_message_def
      classList_remove_def hidden_def
      split: fetch_outcome.splits option.splits if_splits sum.splits)

text \<open>
  C2. The timer that hides the message is set on the path through the \<^verbatim>\<open>try\<close> block
  only (\<open>register_shown_then_hidden\<close>, \<open>signup_shown_then_hidden\<close>); the \<^verbatim>\<open>catch\<close>
  block shows its message and sets no timer (\<open>register_caught_no_timer\<close>,
  \<open>signup_caught_no_timer\<close>). On the concrete page, a registration and a
  signup whose \<^verbatim>\<open>fetch\<close> is rejected leave no timer pending, and 5000 ms later, with no
  other event, both failure messages are still shown.
\<close>

theorem failed_submission_message_stays:
  "timers (page_of (register_resume Rejected (register_submit filled_page))) = []
   \<and> regMessageDiv (page_of (register_resume Rejected (register_submit filled_page)))
       = \<lparr>textContent = ''Failed to register. Please try again.'', classList = [''error'']\<rparr>
   \<and> regMessageDiv (advance 5000 (page_of (register_resume Rejected (register_submit filled_page))))
       = \<lparr>textContent = ''Failed to register. Please try again.'', classList = [''error'']\<rparr>
   \<and> \<not> hidden (regMessageDiv
          (advance 5000 (page_of (register_resume Rejected (register_submit filled_page)))))
   \<and> timers (page_of (signup_resume Rejected (signup_submit filled_page))) = []
   \<and> messageDiv (advance 5000 (page_of (signup_resume Rejected (signup_submit filled_page))))
       = \<lparr>textContent = ''Failed to sign up. Please try again.'', classList = [''error'']\<rparr>
   \<and> \<not> hidden (messageDiv
          (advance 5000 (page_of (signup_resume Rejected (signup_submit filled_page)))))"
  by code_simp

end
